theory Spec2Isabelle
  imports Main "HOL-Library.Word"
begin

section \<open>Data model of \<open>src/main.ts\<close>\<close>

text \<open>
  The HTTP entry point of the console: \<open>bootstrap\<close> builds the server, installs the
  security headers, the static root, the two explicit routes, the API prefix and the
  fallback filter, then listens. The request and the reply are the framework's objects;
  the model keeps the fields that \<open>main.ts\<close> reads and writes.
\<close>

type_synonym bytes = "8 word list"

datatype body = NoBody | Text string | Buffer bytes | StaticFile string

record response =
  status :: nat
  headers :: "string \<rightharpoonup> string"
  body :: body

record request =
  req_method :: string
  url :: string
  req_headers :: "string \<rightharpoonup> string"

datatype level = ERROR | WARN

type_synonym log = "(level \<times> string) list"

text \<open>\<open>StartupConfig\<close> as far as \<open>main.ts\<close> reads it (the TLS options only pass through).\<close>

record startupConfig =
  debug :: bool
  cspWsOveride :: "string option"

text \<open>
  \<open>ConfigService\<close>: \<open>ui.port\<close>, \<open>ui.loginWallpaper\<close> and \<open>package.version\<close>. A field
  that may be \<open>undefined\<close> is an option.
\<close>

record configService =
  port :: "nat option"
  loginWallpaper :: "string option"
  version :: string

subsection \<open>JavaScript values in strings and conditions\<close>

text \<open>A template literal \<open>${x}\<close> writes \<open>undefined\<close> as the text \<open>undefined\<close>.\<close>

definition template_str :: "string option \<Rightarrow> string" where
  "template_str x = (case x of None \<Rightarrow> ''undefined'' | Some s \<Rightarrow> s)"

text \<open>\<open>x || ''\<close> on a string that may be \<open>undefined\<close>.\<close>

definition or_empty :: "string option \<Rightarrow> string" where
  "or_empty x = (case x of None \<Rightarrow> [] | Some s \<Rightarrow> (if s = [] then [] else s))"

definition digit_char :: "nat \<Rightarrow> char" where
  "digit_char d =
     (if d = 0 then CHR ''0'' else if d = 1 then CHR ''1'' else if d = 2 then CHR ''2''
      else if d = 3 then CHR ''3'' else if d = 4 then CHR ''4'' else if d = 5 then CHR ''5''
      else if d = 6 then CHR ''6'' else if d = 7 then CHR ''7'' else if d = 8 then CHR ''8''
      else CHR ''9'')"

text \<open>The decimal text of a non-negative integer, as \<open>${n}\<close> prints it.\<close>

function string_of_nat :: "nat \<Rightarrow> string" where
  "string_of_nat n =
     (if n < 10 then [digit_char n]
      else string_of_nat (n div 10) @ [digit_char (n mod 10)])"
  by pat_completeness auto
termination
  by (relation "measure (\<lambda>n. n)") auto

declare string_of_nat.simps [simp del]

definition template_num :: "nat option \<Rightarrow> string" where
  "template_num x = (case x of None \<Rightarrow> ''undefined'' | Some n \<Rightarrow> string_of_nat n)"

text \<open>\<open>n || 8080\<close>: zero and \<open>undefined\<close> are falsy.\<close>

definition or_8080 :: "nat option \<Rightarrow> nat" where
  "or_8080 x = (case x of None \<Rightarrow> 8080 | Some n \<Rightarrow> (if n = 0 then 8080 else n))"

subsection \<open>The reply's methods\<close>

definition new_reply :: response where
  "new_reply = \<lparr>status = 200, headers = Map.empty, body = NoBody\<rparr>"

definition res_header :: "string \<Rightarrow> string \<Rightarrow> response \<Rightarrow> response" where
  "res_header k v res = res\<lparr>headers := (headers res)(k \<mapsto> v)\<rparr>"

definition res_setHeader :: "string \<Rightarrow> string \<Rightarrow> response \<Rightarrow> response" where
  "res_setHeader k v res = res\<lparr>headers := (headers res)(k \<mapsto> v)\<rparr>"

definition res_type :: "string \<Rightarrow> response \<Rightarrow> response" where
  "res_type t res = res_header ''Content-Type'' t res"

definition res_code :: "nat \<Rightarrow> response \<Rightarrow> response" where
  "res_code c res = res\<lparr>status := c\<rparr>"

definition res_send :: "body \<Rightarrow> response \<Rightarrow> response" where
  "res_send b res = res\<lparr>body := b\<rparr>"

section \<open>Content security policy: \<open>connectSrc\<close>\<close>

definition quoted_self :: string where
  "quoted_self = [CHR 0x27] @ ''self'' @ [CHR 0x27]"

text \<open>The function value of the directive (lines 48 to 50).\<close>

definition connectSrc_fn :: "startupConfig \<Rightarrow> request \<Rightarrow> string" where
  "connectSrc_fn sc req =
     ''wss://'' @ template_str (req_headers req ''host'') @
     '' ws://'' @ template_str (req_headers req ''host'') @
     '' '' @ or_empty (cspWsOveride sc)"

definition connectSrc :: "startupConfig \<Rightarrow> request \<Rightarrow> string list" where
  "connectSrc sc req = [quoted_self, connectSrc_fn sc req]"

text \<open>The middleware writes a directive's values separated by one space.\<close>

fun join_sp :: "string list \<Rightarrow> string" where
  "join_sp [] = []"
| "join_sp [v] = v"
| "join_sp (v # vs) = v @ '' '' @ join_sp vs"

definition connectSrc_value :: "startupConfig \<Rightarrow> request \<Rightarrow> string" where
  "connectSrc_value sc req = join_sp (connectSrc sc req)"

section \<open>Static assets\<close>

text \<open>\<open>setHeaders\<close> of \<open>useStaticAssets\<close> (lines 56 to 61).\<close>

definition setHeaders :: "response \<Rightarrow> response" where
  "setHeaders res = res_setHeader ''Cache-Control'' ''public,max-age=31536000,immutable'' res"

text \<open>
  \<open>res.sendFile(name)\<close> is the reply method of the static plugin registered by
  \<open>useStaticAssets\<close>: it sends the file \<open>name\<close> of the static root and, at send time,
  runs the \<open>setHeaders\<close> callback registered with the plugin. That is after the header
  calls of the handler that called \<open>sendFile\<close>, so the callback's Cache-Control replaces
  one the handler has set.
\<close>

definition res_sendFile :: "string \<Rightarrow> response \<Rightarrow> response" where
  "res_sendFile name res = (setHeaders res)\<lparr>body := StaticFile name\<rparr>"

text \<open>A file found under the static root is sent by the same sender.\<close>

definition static_asset :: "string \<Rightarrow> response \<Rightarrow> response" where
  "static_asset name res = res_sendFile name res"

section \<open>The explicit routes\<close>

text \<open>
  \<open>GET /\<close> (lines 64 to 70), under the comment "serve index.html without a cache".
\<close>

definition get_index :: "request \<Rightarrow> response \<Rightarrow> response" where
  "get_index req res =
     (let res = res_type ''text/html'' res;
          res = res_header ''Cache-Control'' ''no-cache, no-store, must-revalidate'' res;
          res = res_header ''Pragma'' ''no-cache'' res;
          res = res_header ''Expires'' ''0'' res
      in res_sendFile ''index.html'' res)"

subsection \<open>The file system seen by the wallpaper handler\<close>

datatype fs_node = File bytes | Directory

type_synonym filesystem = "string \<rightharpoonup> fs_node"

datatype fs_error = ENOENT string | EISDIR string

definition pathExists :: "filesystem \<Rightarrow> string \<Rightarrow> bool" where
  "pathExists fs p = (fs p \<noteq> None)"

definition readFile :: "filesystem \<Rightarrow> string \<Rightarrow> fs_error + bytes" where
  "readFile fs p =
     (case fs p of
        None \<Rightarrow> Inl (ENOENT p)
      | Some Directory \<Rightarrow> Inl (EISDIR p)
      | Some (File b) \<Rightarrow> Inr b)"

definition logger_error :: "string \<Rightarrow> log \<Rightarrow> log" where
  "logger_error msg lg = lg @ [(ERROR, msg)]"

definition logger_warn :: "string \<Rightarrow> log \<Rightarrow> log" where
  "logger_warn msg lg = lg @ [(WARN, msg)]"

text \<open>
  \<open>GET /assets/snapshot.jpg\<close> (lines 73 to 86). The handler is asynchronous: the file
  system may change between its two awaits, so it takes the file system as it is at the
  existence check and as it is at the read. \<open>path_resolve\<close> is \<open>path.resolve\<close> against
  the working directory of the process, a parameter. A rejected \<open>readFile\<close> leaves the
  handler as an exception (\<open>Inl\<close>): no \<open>try\<close> surrounds it. The condition on
  \<open>loginWallpaper\<close> is JavaScript truthiness: \<open>undefined\<close> and the empty string take
  the \<open>else\<close> branch.
\<close>

definition get_snapshot ::
  "configService \<Rightarrow> (string \<Rightarrow> string) \<Rightarrow> filesystem \<Rightarrow> filesystem \<Rightarrow> log \<Rightarrow> response
     \<Rightarrow> (fs_error + response) \<times> log" where
  "get_snapshot cfg path_resolve fs_check fs_read lg res =
     (case loginWallpaper cfg of
        Some (c # cs) \<Rightarrow>
          (if \<not> pathExists fs_check (c # cs) then
             (Inr (res_send (Text ''Not Found'') (res_code 404 res)),
              logger_error (''Custom Login Wallpaper does not exist: '' @ (c # cs)) lg)
           else
             (let res = res_type ''image/jpg'' res;
                  res = res_header ''Cache-Control'' ''public,max-age=31536000,immutable'' res
              in case readFile fs_read (path_resolve (c # cs)) of
                   Inl e \<Rightarrow> (Inl e, lg)
                 | Inr b \<Rightarrow> (Inr (res_send (Buffer b) res), lg)))
      | _ \<Rightarrow>
          (let res = res_header ''Cache-Control'' ''public,max-age=31536000,immutable'' res
           in (Inr (res_sendFile ''assets/snapshot.jpg'' res), lg)))"

text \<open>
  The server answering a sequence of requests to the route: each request comes with the
  file system of its own time and its own reply object; only the log is carried on.
\<close>

fun serve_snapshots ::
  "configService \<Rightarrow> (string \<Rightarrow> string) \<Rightarrow> (filesystem \<times> filesystem \<times> response) list \<Rightarrow> log
     \<Rightarrow> (fs_error + response) list \<times> log" where
  "serve_snapshots cfg path_resolve [] lg = ([], lg)"
| "serve_snapshots cfg path_resolve ((fs_check, fs_read, res) # rest) lg =
     (case get_snapshot cfg path_resolve fs_check fs_read lg res of
        (r, lg') \<Rightarrow>
          (case serve_snapshots cfg path_resolve rest lg' of
             (rs, lg'') \<Rightarrow> (r # rs, lg'')))"

section \<open>Cache policy classes\<close>

text \<open>
  The two header sets of the code, under the names the specification gives them.
  A reply is in a class when it carries that class's headers and none of the other's.
\<close>

definition has_immutable_header :: "response \<Rightarrow> bool" where
  "has_immutable_header r =
     (headers r ''Cache-Control'' = Some ''public,max-age=31536000,immutable'')"

definition has_no_cache_header :: "response \<Rightarrow> bool" where
  "has_no_cache_header r =
     (headers r ''Cache-Control'' = Some ''no-cache, no-store, must-revalidate''
      \<or> headers r ''Pragma'' = Some ''no-cache''
      \<or> headers r ''Expires'' = Some ''0'')"

definition STATIC_IMMUTABLE :: "response \<Rightarrow> bool" where
  "STATIC_IMMUTABLE r =
     (headers r ''Cache-Control'' = Some ''public,max-age=31536000,immutable''
      \<and> headers r ''Pragma'' = None \<and> headers r ''Expires'' = None)"

definition DYNAMIC_NO_CACHE :: "response \<Rightarrow> bool" where
  "DYNAMIC_NO_CACHE r =
     (headers r ''Cache-Control'' = Some ''no-cache, no-store, must-revalidate''
      \<and> headers r ''Pragma'' = Some ''no-cache''
      \<and> headers r ''Expires'' = Some ''0'')"

definition mixes_classes :: "response \<Rightarrow> bool" where
  "mixes_classes r = (has_immutable_header r \<and> has_no_cache_header r)"


definition no_cache_policy_headers :: "response \<Rightarrow> bool" where
  "no_cache_policy_headers r =
     (headers r ''Cache-Control'' = None \<and> headers r ''Pragma'' = None
      \<and> headers r ''Expires'' = None)"



section \<open>API prefix and fallback filter\<close>

definition globalPrefix :: string where
  "globalPrefix = ''/api''"

definition under_api_prefix :: "string \<Rightarrow> bool" where
  "under_api_prefix u =
     (take (length (globalPrefix @ ''/'')) u = globalPrefix @ ''/'')"

text \<open>
  Modelled from the spec: the shell reply of the fallback, which \<open>SpaFilter\<close> builds
  outside \<open>main.ts\<close>. The specification gives it the shell document \<open>index.html\<close>,
  Content-Type \<open>text/html\<close> and the no-cache headers.
\<close>

definition shell_document :: "response \<Rightarrow> response" where
  "shell_document res =
     res\<lparr>headers := (headers res)
            (''Content-Type'' \<mapsto> ''text/html'',
             ''Cache-Control'' \<mapsto> ''no-cache, no-store, must-revalidate'',
             ''Pragma'' \<mapsto> ''no-cache'',
             ''Expires'' \<mapsto> ''0''),
         body := StaticFile ''index.html''\<rparr>"

text \<open>
  Modelled from the spec: \<open>SpaFilter\<close> (\<open>./core/spa/spa.filter\<close>) is installed by
  \<open>main.ts\<close>; its body lies outside \<open>main.ts\<close>. The specification has it
  answer a request that matched nothing with the shell document, unless the path lies
  under the API prefix, where it does not intercept. \<open>None\<close> is "not intercepted".
\<close>

definition SpaFilter_catch :: "request \<Rightarrow> response \<Rightarrow> response option" where
  "SpaFilter_catch req res =
     (if under_api_prefix (url req) then None else Some (shell_document res))"

text \<open>
  Modelled from the spec: the outcome of a request that matched no route. Where the
  filter does not intercept, the API layer's 404 stands.
\<close>

definition unmatched_response :: "request \<Rightarrow> response \<Rightarrow> response" where
  "unmatched_response req res =
     (case SpaFilter_catch req res of
        None \<Rightarrow> res_code 404 res
      | Some shell \<Rightarrow> shell)"

section \<open>Bootstrap\<close>

datatype fatal = ConfigLoadFailure

record listening =
  listen_port :: nat
  listen_host :: string

text \<open>
  \<open>bootstrap\<close> as far as the process outcome goes: \<open>getStartupConfig\<close> either yields
  the startup configuration or rejects (\<open>None\<close>), which ends \<open>bootstrap\<close> before
  anything is logged or bound; otherwise the startup line is logged and the server
  listens (lines 106 and 107).
\<close>

definition startup_line :: "configService \<Rightarrow> string" where
  "startup_line cfg =
     ''Console v'' @ version cfg @ '' is listening on port '' @ template_num (port cfg)"

definition bootstrap ::
  "startupConfig option \<Rightarrow> configService \<Rightarrow> log \<Rightarrow> fatal + (log \<times> listening)" where
  "bootstrap getStartupConfig cfg lg =
     (case getStartupConfig of
        None \<Rightarrow> Inl ConfigLoadFailure
      | Some startupConfig \<Rightarrow>
          Inr (logger_warn (startup_line cfg) lg,
               \<lparr>listen_port = or_8080 (port cfg), listen_host = ''0.0.0.0''\<rparr>))"

text \<open>Whether a text occurs inside another.\<close>

fun starts_with :: "string \<Rightarrow> string \<Rightarrow> bool" where
  "starts_with [] s = True"
| "starts_with (p # ps) [] = False"
| "starts_with (p # ps) (c # cs) = (p = c \<and> starts_with ps cs)"

fun contains_str :: "string \<Rightarrow> string \<Rightarrow> bool" where
  "contains_str p [] = (p = [])"
| "contains_str p (c # cs) = (starts_with p (c # cs) \<or> contains_str p cs)"

section \<open>Properties\<close>

lemmas reply_defs = res_header_def res_setHeader_def res_type_def res_code_def res_send_def
  res_sendFile_def setHeaders_def

subsection \<open>Content security policy\<close>

text \<open>
  With a host header the directive has the form \<open>'self' wss://h ws://h override\<close>, the
  host taken verbatim.
\<close>

lemma connectSrc_with_host:
  "req_headers req ''host'' = Some h \<Longrightarrow>
   connectSrc_value sc req =
     quoted_self @ '' wss://'' @ h @ '' ws://'' @ h @ '' '' @ or_empty (cspWsOveride sc)"
  by (simp add: connectSrc_value_def connectSrc_def connectSrc_fn_def template_str_def)

lemma connectSrc_example:
  "connectSrc_fn \<lparr>debug = False, cspWsOveride = None\<rparr>
     \<lparr>req_method = ''GET'', url = ''/'', req_headers = [''host'' \<mapsto> ''example.com:8080'']\<rparr>
   = ''wss://example.com:8080 ws://example.com:8080 ''"
  by (simp add: connectSrc_fn_def template_str_def or_empty_def)

text \<open>
  C1. The claim: the connect-src directive is \<open>'self'\<close> followed by
  \<open>wss://<host> ws://<host> <override>\<close>, with an empty host substring when the request
  has no host header. The code at a request without a host header: the template literal
  prints the missing header as the text \<open>undefined\<close>, while the override beside it is
  guarded by \<open>|| ''\<close>.
\<close>

theorem connectSrc_absent_host:
  "connectSrc_value \<lparr>debug = False, cspWsOveride = None\<rparr>
     \<lparr>req_method = ''GET'', url = ''/'', req_headers = Map.empty\<rparr>
   = quoted_self @ '' wss://undefined ws://undefined ''
   \<and> connectSrc_value \<lparr>debug = False, cspWsOveride = None\<rparr>
     \<lparr>req_method = ''GET'', url = ''/'', req_headers = Map.empty\<rparr>
   \<noteq> quoted_self @ '' wss:// ws:// ''"
  by (simp add: connectSrc_value_def connectSrc_def connectSrc_fn_def template_str_def
      or_empty_def quoted_self_def)

subsection \<open>Fallback filter\<close>

text \<open>
  C2. A request whose path lies under the \<open>/api\<close> prefix and that matched no route is
  not intercepted by the fallback filter: its outcome is the 404 of the API layer, not
  the shell document.
\<close>

theorem spa_not_api:
  "under_api_prefix (url req) \<Longrightarrow>
   SpaFilter_catch req res = None \<and> unmatched_response req res = res\<lparr>status := 404\<rparr>"
  by (simp add: SpaFilter_catch_def unmatched_response_def res_code_def)

theorem spa_not_api_witness:
  "under_api_prefix (url \<lparr>req_method = ''GET'', url = ''/api/does-not-exist'', req_headers = Map.empty\<rparr>)
   \<and> SpaFilter_catch \<lparr>req_method = ''GET'', url = ''/api/does-not-exist'', req_headers = Map.empty\<rparr> new_reply = None
   \<and> unmatched_response \<lparr>req_method = ''GET'', url = ''/api/does-not-exist'', req_headers = Map.empty\<rparr> new_reply
       = \<lparr>status = 404, headers = Map.empty, body = NoBody\<rparr>"
proof -
  have h: "under_api_prefix (url \<lparr>req_method = ''GET'', url = ''/api/does-not-exist'', req_headers = Map.empty\<rparr>)"
    by (simp add: under_api_prefix_def globalPrefix_def)
  show ?thesis
    using h spa_not_api [OF h, of new_reply] by (simp add: new_reply_def)
qed

subsection \<open>Wallpaper handler\<close>

text \<open>
  C3. When \<open>loginWallpaper\<close> is set (a non-empty path) and the path does not exist at
  the time of the request, the handler logs an error that names the path and answers
  404 with the plain body \<open>Not Found\<close>. The server keeps serving: a later request to
  the route checks the path again, and is answered with the file once it exists.
\<close>

theorem snapshot_missing:
  assumes "loginWallpaper cfg = Some p" and "p \<noteq> []" and "\<not> pathExists fs p"
  shows "get_snapshot cfg path_resolve fs fs' lg res =
           (Inr (res\<lparr>status := 404, body := Text ''Not Found''\<rparr>),
            lg @ [(ERROR, ''Custom Login Wallpaper does not exist: '' @ p)])
         \<and> (fs2 p = Some (File b) \<and> fs2' (path_resolve p) = Some (File b) \<longrightarrow>
            serve_snapshots cfg path_resolve [(fs, fs', res), (fs2, fs2', res2)] lg =
              ([Inr (res\<lparr>status := 404, body := Text ''Not Found''\<rparr>),
                Inr (res2\<lparr>headers := (headers res2)
                       (''Content-Type'' \<mapsto> ''image/jpg'',
                        ''Cache-Control'' \<mapsto> ''public,max-age=31536000,immutable''),
                     body := Buffer b\<rparr>)],
               lg @ [(ERROR, ''Custom Login Wallpaper does not exist: '' @ p)]))"
proof -
  obtain c cs where p: "p = c # cs" using assms(2) by (cases p) auto
  have first: "get_snapshot cfg path_resolve fs fs' lg res =
           (Inr (res\<lparr>status := 404, body := Text ''Not Found''\<rparr>),
            lg @ [(ERROR, ''Custom Login Wallpaper does not exist: '' @ p)])"
    using assms(1,3) by (simp add: p get_snapshot_def reply_defs logger_error_def)
  have second: "get_snapshot cfg path_resolve fs2 fs2' lg2 res2 =
      (Inr (res2\<lparr>headers := (headers res2)
                       (''Content-Type'' \<mapsto> ''image/jpg'',
                        ''Cache-Control'' \<mapsto> ''public,max-age=31536000,immutable''),
                     body := Buffer b\<rparr>), lg2)"
    if "fs2 p = Some (File b)" "fs2' (path_resolve p) = Some (File b)" for lg2
    using that assms(1) by (simp add: p get_snapshot_def reply_defs pathExists_def readFile_def)
  show ?thesis using first second by simp
qed

theorem snapshot_missing_witness:
  "loginWallpaper \<lparr>port = Some 8581, loginWallpaper = Some ''/data/wall.jpg'', version = ''4.5.1''\<rparr>
     = Some ''/data/wall.jpg''
   \<and> ''/data/wall.jpg'' \<noteq> []
   \<and> \<not> pathExists Map.empty ''/data/wall.jpg''
   \<and> get_snapshot \<lparr>port = Some 8581, loginWallpaper = Some ''/data/wall.jpg'', version = ''4.5.1''\<rparr>
         (\<lambda>p. p) Map.empty Map.empty [] new_reply =
         (Inr (new_reply\<lparr>status := 404, body := Text ''Not Found''\<rparr>),
          [(ERROR, ''Custom Login Wallpaper does not exist: /data/wall.jpg'')])
   \<and> serve_snapshots \<lparr>port = Some 8581, loginWallpaper = Some ''/data/wall.jpg'', version = ''4.5.1''\<rparr>
         (\<lambda>p. p)
         [(Map.empty, Map.empty, new_reply),
          ([''/data/wall.jpg'' \<mapsto> File [0xFF, 0xD8]], [''/data/wall.jpg'' \<mapsto> File [0xFF, 0xD8]], new_reply)] [] =
         ([Inr (new_reply\<lparr>status := 404, body := Text ''Not Found''\<rparr>),
           Inr (new_reply\<lparr>headers := (headers new_reply)
                       (''Content-Type'' \<mapsto> ''image/jpg'',
                        ''Cache-Control'' \<mapsto> ''public,max-age=31536000,immutable''),
                     body := Buffer [0xFF, 0xD8]\<rparr>)],
          [(ERROR, ''Custom Login Wallpaper does not exist: /data/wall.jpg'')])"
proof -
  let ?cfg = "\<lparr>port = Some 8581, loginWallpaper = Some ''/data/wall.jpg'', version = ''4.5.1''\<rparr>"
  let ?fs = "[''/data/wall.jpg'' \<mapsto> File [0xFF, 0xD8]]"
  have h1: "loginWallpaper ?cfg = Some ''/data/wall.jpg''" by simp
  have h2: "''/data/wall.jpg'' \<noteq> []" by simp
  have h3: "\<not> pathExists Map.empty ''/data/wall.jpg''" by (simp add: pathExists_def)
  have h4: "?fs ''/data/wall.jpg'' = Some (File [0xFF, 0xD8])" by simp
  show ?thesis
    using h1 h2 h3 h4
      snapshot_missing [OF h1 h2 h3, of "\<lambda>p. p" Map.empty "[]" new_reply ?fs "[0xFF, 0xD8]" ?fs new_reply]
    by (simp del: serve_snapshots.simps)
qed

text \<open>
  C4, as claimed: on both success paths the reply carries Content-Type \<open>image/jpg\<close>.
  On the default path the handler sets the cache header only and hands the bundled file
  to the file sender; it sets no Content-Type.
\<close>

theorem snapshot_default_no_content_type:
  "\<not> isl (fst (get_snapshot \<lparr>port = Some 8581, loginWallpaper = None, version = ''4.5.1''\<rparr>
             (\<lambda>p. p) Map.empty Map.empty [] new_reply))
   \<and> headers (projr (fst (get_snapshot \<lparr>port = Some 8581, loginWallpaper = None, version = ''4.5.1''\<rparr>
             (\<lambda>p. p) Map.empty Map.empty [] new_reply))) ''Content-Type''
       \<noteq> Some ''image/jpg''"
  by (simp add: get_snapshot_def reply_defs new_reply_def)

text \<open>
  C4, amended. With \<open>loginWallpaper\<close> unset the reply is the bundled image
  \<open>assets/snapshot.jpg\<close> sent as a static file, with the immutable cache header and no
  Content-Type set by the handler. With \<open>loginWallpaper\<close> set to an existing file the
  body is that file's bytes, with Content-Type \<open>image/jpg\<close> and the immutable cache
  header.
\<close>

theorem snapshot_success:
  "(loginWallpaper cfg = None \<longrightarrow>
      get_snapshot cfg path_resolve fs fs' lg res =
        (Inr (res\<lparr>headers := (headers res)
                 (''Cache-Control'' \<mapsto> ''public,max-age=31536000,immutable''),
               body := StaticFile ''assets/snapshot.jpg''\<rparr>), lg))
   \<and> (loginWallpaper cfg = Some p \<and> p \<noteq> [] \<and> pathExists fs p
        \<and> fs' (path_resolve p) = Some (File b) \<longrightarrow>
      get_snapshot cfg path_resolve fs fs' lg res =
        (Inr (res\<lparr>headers := (headers res)
                 (''Content-Type'' \<mapsto> ''image/jpg'',
                  ''Cache-Control'' \<mapsto> ''public,max-age=31536000,immutable''),
               body := Buffer b\<rparr>), lg))"
proof (intro conjI impI)
  assume "loginWallpaper cfg = None"
  then show "get_snapshot cfg path_resolve fs fs' lg res =
        (Inr (res\<lparr>headers := (headers res)
                 (''Cache-Control'' \<mapsto> ''public,max-age=31536000,immutable''),
               body := StaticFile ''assets/snapshot.jpg''\<rparr>), lg)"
    by (simp add: get_snapshot_def reply_defs)
next
  assume a: "loginWallpaper cfg = Some p \<and> p \<noteq> [] \<and> pathExists fs p
        \<and> fs' (path_resolve p) = Some (File b)"
  then obtain c cs where p: "p = c # cs" by (cases p) auto
  from a show "get_snapshot cfg path_resolve fs fs' lg res =
        (Inr (res\<lparr>headers := (headers res)
                 (''Content-Type'' \<mapsto> ''image/jpg'',
                  ''Cache-Control'' \<mapsto> ''public,max-age=31536000,immutable''),
               body := Buffer b\<rparr>), lg)"
    by (simp add: p get_snapshot_def reply_defs readFile_def)
qed

theorem snapshot_success_witness:
  "loginWallpaper \<lparr>port = Some 8581, loginWallpaper = None, version = ''4.5.1''\<rparr> = None
   \<and> get_snapshot \<lparr>port = Some 8581, loginWallpaper = None, version = ''4.5.1''\<rparr>
        (\<lambda>p. p) Map.empty Map.empty [] new_reply =
        (Inr (new_reply\<lparr>headers := (headers new_reply)
                 (''Cache-Control'' \<mapsto> ''public,max-age=31536000,immutable''),
               body := StaticFile ''assets/snapshot.jpg''\<rparr>), [])
   \<and> loginWallpaper \<lparr>port = Some 8581, loginWallpaper = Some ''/data/wall.jpg'', version = ''4.5.1''\<rparr>
        = Some ''/data/wall.jpg''
   \<and> ''/data/wall.jpg'' \<noteq> []
   \<and> pathExists [''/data/wall.jpg'' \<mapsto> File [0xFF, 0xD8]] ''/data/wall.jpg''
   \<and> [''/data/wall.jpg'' \<mapsto> File [0xFF, 0xD8]] ''/data/wall.jpg'' = Some (File [0xFF, 0xD8])
   \<and> get_snapshot \<lparr>port = Some 8581, loginWallpaper = Some ''/data/wall.jpg'', version = ''4.5.1''\<rparr>
        (\<lambda>p. p) [''/data/wall.jpg'' \<mapsto> File [0xFF, 0xD8]]
        [''/data/wall.jpg'' \<mapsto> File [0xFF, 0xD8]] [] new_reply =
        (Inr (new_reply\<lparr>headers := (headers new_reply)
                 (''Content-Type'' \<mapsto> ''image/jpg'',
                  ''Cache-Control'' \<mapsto> ''public,max-age=31536000,immutable''),
               body := Buffer [0xFF, 0xD8]\<rparr>), [])"
proof -
  let ?unset = "\<lparr>port = Some 8581, loginWallpaper = None, version = ''4.5.1''\<rparr>"
  let ?set = "\<lparr>port = Some 8581, loginWallpaper = Some ''/data/wall.jpg'', version = ''4.5.1''\<rparr>"
  let ?fs = "[''/data/wall.jpg'' \<mapsto> File [0xFF, 0xD8]]"
  have h1: "loginWallpaper ?unset = None" by simp
  have h2: "loginWallpaper ?set = Some ''/data/wall.jpg''" by simp
  have h3: "''/data/wall.jpg'' \<noteq> []" by simp
  have h4: "pathExists ?fs ''/data/wall.jpg''" by (simp add: pathExists_def)
  have h5: "?fs ''/data/wall.jpg'' = Some (File [0xFF, 0xD8])" by simp
  show ?thesis
    using h1 h2 h3 h4 h5
      snapshot_success [of ?unset "\<lambda>p. p" Map.empty Map.empty "[]" new_reply]
      snapshot_success [of ?set "\<lambda>p. p" ?fs ?fs "[]" new_reply "''/data/wall.jpg''" "[0xFF, 0xD8]"]
    by simp
qed

subsection \<open>Cache headers\<close>

text \<open>
  C5, as claimed: the Cache-Control value of the immutable class is the text
  \<open>public, max-age=31536000, immutable\<close>. The code writes the value without blanks
  after the commas, in all three places.
\<close>

theorem cache_control_spaces_counterexample:
  "headers (static_asset ''main.js'' new_reply) ''Cache-Control''
     \<noteq> Some ''public, max-age=31536000, immutable''"
  by (simp add: static_asset_def setHeaders_def reply_defs new_reply_def)

text \<open>
  C5, amended. Every static file and every wallpaper image, default or custom, is sent
  with the Cache-Control value \<open>public,max-age=31536000,immutable\<close>.
\<close>

theorem static_immutable_cache_control:
  "headers (static_asset name res) ''Cache-Control'' = Some ''public,max-age=31536000,immutable''
   \<and> (fst (get_snapshot cfg path_resolve fs fs' lg res) = Inr r \<and> body r \<noteq> Text ''Not Found''
        \<longrightarrow> headers r ''Cache-Control'' = Some ''public,max-age=31536000,immutable'')"
  by (auto simp: static_asset_def setHeaders_def get_snapshot_def reply_defs Let_def
      split: option.splits list.splits sum.splits if_splits)

theorem static_immutable_cache_control_witness:
  "headers (static_asset ''main.js'' new_reply) ''Cache-Control''
     = Some ''public,max-age=31536000,immutable''
   \<and> fst (get_snapshot \<lparr>port = Some 8581, loginWallpaper = None, version = ''4.5.1''\<rparr>
          (\<lambda>p. p) Map.empty Map.empty [] new_reply)
       = Inr \<lparr>status = 200,
              headers = [''Cache-Control'' \<mapsto> ''public,max-age=31536000,immutable''],
              body = StaticFile ''assets/snapshot.jpg''\<rparr>
   \<and> body \<lparr>status = 200,
              headers = [''Cache-Control'' \<mapsto> ''public,max-age=31536000,immutable''],
              body = StaticFile ''assets/snapshot.jpg''\<rparr> \<noteq> Text ''Not Found''
   \<and> headers \<lparr>status = 200,
              headers = [''Cache-Control'' \<mapsto> ''public,max-age=31536000,immutable''],
              body = StaticFile ''assets/snapshot.jpg''\<rparr> ''Cache-Control''
       = Some ''public,max-age=31536000,immutable''"
proof -
  let ?cfg = "\<lparr>port = Some 8581, loginWallpaper = None, version = ''4.5.1''\<rparr>"
  let ?r = "\<lparr>status = 200,
              headers = [''Cache-Control'' \<mapsto> ''public,max-age=31536000,immutable''],
              body = StaticFile ''assets/snapshot.jpg''\<rparr>"
  have h1: "fst (get_snapshot ?cfg (\<lambda>p. p) Map.empty Map.empty [] new_reply) = Inr ?r"
    by (simp add: get_snapshot_def reply_defs new_reply_def)
  have h2: "body ?r \<noteq> Text ''Not Found''" by simp
  show ?thesis
    using h1 h2
      static_immutable_cache_control
        [of "''main.js''" new_reply ?cfg "\<lambda>p. p" Map.empty Map.empty "[]" ?r]
    by blast
qed

text \<open>
  C6. The claim: \<open>GET /\<close> sends the shell document \<open>index.html\<close> with Content-Type
  \<open>text/html\<close> and exactly the no-cache headers. The code at any request to \<open>/\<close>: the
  handler sets the three no-cache headers and then calls \<open>res.sendFile\<close>, whose
  \<open>setHeaders\<close> callback replaces the Cache-Control by the immutable value. The reply
  carries the immutable Cache-Control beside Pragma \<open>no-cache\<close> and Expires \<open>0\<close>.
\<close>

theorem get_index_cache_control_overwritten:
  "get_index req res =
     res\<lparr>headers := (headers res)
            (''Content-Type'' \<mapsto> ''text/html'',
             ''Pragma'' \<mapsto> ''no-cache'',
             ''Expires'' \<mapsto> ''0'',
             ''Cache-Control'' \<mapsto> ''public,max-age=31536000,immutable''),
         body := StaticFile ''index.html''\<rparr>
   \<and> headers (get_index req res) ''Cache-Control''
       \<noteq> Some ''no-cache, no-store, must-revalidate''
   \<and> \<not> DYNAMIC_NO_CACHE (get_index req res)
   \<and> mixes_classes (get_index req res)"
proof -
  have eq: "get_index req res =
     res\<lparr>headers := (headers res)
            (''Content-Type'' \<mapsto> ''text/html'',
             ''Pragma'' \<mapsto> ''no-cache'',
             ''Expires'' \<mapsto> ''0'',
             ''Cache-Control'' \<mapsto> ''public,max-age=31536000,immutable''),
         body := StaticFile ''index.html''\<rparr>"
    by (simp add: get_index_def setHeaders_def reply_defs fun_eq_iff)
  show ?thesis
    unfolding eq
    by (simp add: DYNAMIC_NO_CACHE_def mixes_classes_def has_immutable_header_def
        has_no_cache_header_def)
qed







text \<open>
  C10. When \<open>loginWallpaper\<close> is set and the path does not exist, the 404 is sent
  with the headers the reply already had: the handler returns before it sets
  Cache-Control, Pragma, Expires or Content-Type, so the reply is in neither policy
  class.
\<close>

theorem not_found_sets_no_headers:
  assumes "loginWallpaper cfg = Some p" and "p \<noteq> []" and "\<not> pathExists fs p"
    and "no_cache_policy_headers res" and "headers res ''Content-Type'' = None"
  shows "\<exists>r. fst (get_snapshot cfg path_resolve fs fs' lg res) = Inr r
           \<and> status r = 404 \<and> headers r = headers res
           \<and> headers r ''Cache-Control'' = None \<and> headers r ''Pragma'' = None
           \<and> headers r ''Expires'' = None \<and> headers r ''Content-Type'' = None
           \<and> \<not> STATIC_IMMUTABLE r \<and> \<not> DYNAMIC_NO_CACHE r"
proof -
  obtain c cs where p: "p = c # cs" using assms(2) by (cases p) auto
  have "fst (get_snapshot cfg path_resolve fs fs' lg res)
          = Inr (res\<lparr>status := 404, body := Text ''Not Found''\<rparr>)"
    using assms(1,3) by (simp add: p get_snapshot_def reply_defs)
  then show ?thesis
    using assms(4,5)
    by (simp add: no_cache_policy_headers_def STATIC_IMMUTABLE_def DYNAMIC_NO_CACHE_def)
qed

theorem not_found_sets_no_headers_witness:
  "loginWallpaper \<lparr>port = Some 8581, loginWallpaper = Some ''/data/wall.jpg'', version = ''4.5.1''\<rparr>
     = Some ''/data/wall.jpg''
   \<and> ''/data/wall.jpg'' \<noteq> []
   \<and> \<not> pathExists Map.empty ''/data/wall.jpg''
   \<and> no_cache_policy_headers new_reply
   \<and> headers new_reply ''Content-Type'' = None
   \<and> (\<exists>r. fst (get_snapshot \<lparr>port = Some 8581, loginWallpaper = Some ''/data/wall.jpg'', version = ''4.5.1''\<rparr>
                   (\<lambda>p. p) Map.empty Map.empty [] new_reply) = Inr r
           \<and> status r = 404 \<and> headers r = headers new_reply
           \<and> headers r ''Cache-Control'' = None \<and> headers r ''Pragma'' = None
           \<and> headers r ''Expires'' = None \<and> headers r ''Content-Type'' = None
           \<and> \<not> STATIC_IMMUTABLE r \<and> \<not> DYNAMIC_NO_CACHE r)"
proof -
  let ?cfg = "\<lparr>port = Some 8581, loginWallpaper = Some ''/data/wall.jpg'', version = ''4.5.1''\<rparr>"
  have h1: "loginWallpaper ?cfg = Some ''/data/wall.jpg''" by simp
  have h2: "''/data/wall.jpg'' \<noteq> []" by simp
  have h3: "\<not> pathExists Map.empty ''/data/wall.jpg''" by (simp add: pathExists_def)
  have h4: "no_cache_policy_headers new_reply"
    by (simp add: no_cache_policy_headers_def new_reply_def)
  have h5: "headers new_reply ''Content-Type'' = None" by (simp add: new_reply_def)
  show ?thesis
    using h1 h2 h3 h4 h5
      not_found_sets_no_headers [OF h1 h2 h3 h4 h5, of "\<lambda>p. p" Map.empty "[]"]
    by blast
qed

subsection \<open>Failures\<close>

text \<open>
  C8. The claim: every failure at request time is handled in the handler, logged and
  mapped to a status, also when the configured file disappears between the existence
  check and the read. The code at that input: the existence check passes, \<open>readFile\<close>
  rejects, and the rejection leaves the handler with nothing logged and no status
  chosen. The same happens when the configured path is a directory.
\<close>

theorem snapshot_file_removed_before_read:
  "get_snapshot \<lparr>port = Some 8581, loginWallpaper = Some ''/data/wall.jpg'', version = ''4.5.1''\<rparr>
     (\<lambda>p. p) [''/data/wall.jpg'' \<mapsto> File [0xFF, 0xD8]] Map.empty [] new_reply
   = (Inl (ENOENT ''/data/wall.jpg''), [])
   \<and> get_snapshot \<lparr>port = Some 8581, loginWallpaper = Some ''/data'', version = ''4.5.1''\<rparr>
     (\<lambda>p. p) [''/data'' \<mapsto> Directory] [''/data'' \<mapsto> Directory] [] new_reply
   = (Inl (EISDIR ''/data''), [])"
  by (simp add: get_snapshot_def reply_defs pathExists_def readFile_def)

text \<open>A failure to load the startup configuration ends \<open>bootstrap\<close> before it listens.\<close>

lemma bootstrap_config_failure: "bootstrap None cfg lg = Inl ConfigLoadFailure"
  by (simp add: bootstrap_def)

subsection \<open>Startup\<close>

lemma string_of_nat_0: "string_of_nat 0 = ''0''"
  by (simp add: string_of_nat.simps digit_char_def)

lemma string_of_nat_8080: "string_of_nat 8080 = ''8080''"
  by (simp add: string_of_nat.simps digit_char_def)

lemma starts_with_append: "starts_with p (p @ s)"
  by (induction p) auto

lemma contains_str_here: "contains_str p (p @ s)"
  by (cases "p @ s") (use starts_with_append [of p s] in auto)

lemma contains_str_append: "contains_str p (a @ p @ s)"
proof (induction a)
  case Nil
  show ?case using contains_str_here by simp
next
  case (Cons x a)
  then show ?case by simp
qed

text \<open>
  The server listens on \<open>0.0.0.0\<close>, on the configured port or on 8080 when the port
  is unset or zero; the startup line holds the version and the text of the configured
  port.
\<close>

lemma bootstrap_listen:
  "bootstrap (Some sc) cfg lg =
     Inr (lg @ [(WARN, startup_line cfg)],
          \<lparr>listen_port = (case port cfg of None \<Rightarrow> 8080 | Some n \<Rightarrow> if n = 0 then 8080 else n),
           listen_host = ''0.0.0.0''\<rparr>)"
  by (simp add: bootstrap_def or_8080_def logger_warn_def)

lemma startup_line_version: "contains_str (version cfg) (startup_line cfg)"
  unfolding startup_line_def by (rule contains_str_append)

lemma startup_line_port:
  "port cfg = Some n \<Longrightarrow> contains_str (string_of_nat n) (startup_line cfg)"
  using contains_str_append [of "string_of_nat n" "''Console v'' @ version cfg @ '' is listening on port ''" "[]"]
  by (simp add: startup_line_def template_num_def)

text \<open>
  C9. The claim: the startup line holds the version and the port the server listens on.
  The code with the port zero or unset: it listens on 8080 and the line says port
  \<open>0\<close> or port \<open>undefined\<close>; the default is applied in the \<open>listen\<close> call and not in
  the line.
\<close>

theorem bootstrap_port_zero:
  "bootstrap (Some \<lparr>debug = False, cspWsOveride = None\<rparr>)
     \<lparr>port = Some 0, loginWallpaper = None, version = ''4.5.1''\<rparr> []
   = Inr ([(WARN, ''Console v4.5.1 is listening on port 0'')],
          \<lparr>listen_port = 8080, listen_host = ''0.0.0.0''\<rparr>)
   \<and> \<not> contains_str (string_of_nat 8080) ''Console v4.5.1 is listening on port 0''
   \<and> bootstrap (Some \<lparr>debug = False, cspWsOveride = None\<rparr>)
     \<lparr>port = None, loginWallpaper = None, version = ''4.5.1''\<rparr> []
   = Inr ([(WARN, ''Console v4.5.1 is listening on port undefined'')],
          \<lparr>listen_port = 8080, listen_host = ''0.0.0.0''\<rparr>)"
  by (simp add: bootstrap_def startup_line_def template_num_def or_8080_def logger_warn_def
      string_of_nat_0 string_of_nat_8080)

end
